theory Spec2Isabelle
  imports Main
begin

section \<open>JavaScript values and objects\<close>

text \<open>
  The library is JavaScript. The parts of the language that the functions of
  \<^verbatim>\<open>lib/contentful.js\<close> rely on are made explicit here: values that may be
  \<^verbatim>\<open>undefined\<close>, truthiness, string conversion inside templates, and objects that
  are shared by reference and mutated in place.
\<close>

datatype jsval = JUndefined | JNull | JBool bool | JNum int | JStr string | JObject

text \<open>\<^verbatim>\<open>!!v\<close>: the boolean a value converts to.\<close>

fun truthy :: "jsval \<Rightarrow> bool" where
  "truthy JUndefined = False"
| "truthy JNull = False"
| "truthy (JBool b) = b"
| "truthy (JNum n) = (n \<noteq> 0)"
| "truthy (JStr s) = (s \<noteq> [])"
| "truthy JObject = True"

text \<open>
  A string-typed property that may be missing is a \<open>string option\<close>; \<open>None\<close> is
  \<^verbatim>\<open>undefined\<close>. Such a value is falsy when it is \<^verbatim>\<open>undefined\<close> or the empty string.
\<close>

definition str_truthy :: "string option \<Rightarrow> bool" where
  "str_truthy v = (case v of None \<Rightarrow> False | Some s \<Rightarrow> s \<noteq> [])"

definition bool_truthy :: "bool option \<Rightarrow> bool" where
  "bool_truthy v = (case v of None \<Rightarrow> False | Some b \<Rightarrow> b)"

text \<open>String conversion of a possibly missing string, as \<^verbatim>\<open>+\<close> and templates do it.\<close>

definition toString :: "string option \<Rightarrow> string" where
  "toString v = (case v of None \<Rightarrow> ''undefined'' | Some s \<Rightarrow> s)"

text \<open>\<^verbatim>\<open>a || b\<close> on possibly missing strings.\<close>

definition or_else :: "string option \<Rightarrow> string option \<Rightarrow> string option" where
  "or_else a b = (if str_truthy a then a else b)"

text \<open>\<^verbatim>\<open>s.split(c)\<close> for a one-character separator: every occurrence separates.\<close>

fun str_split :: "char \<Rightarrow> string \<Rightarrow> string list" where
  "str_split c [] = [[]]"
| "str_split c (x # xs) =
     (if x = c then [] # str_split c xs
      else (case str_split c xs of [] \<Rightarrow> [[x]] | y # ys \<Rightarrow> (x # y) # ys))"

text \<open>Array destructuring \<^verbatim>\<open>[a, b] = xs\<close>: a missing position is \<^verbatim>\<open>undefined\<close>.\<close>

definition nth_opt :: "'a list \<Rightarrow> nat \<Rightarrow> 'a option" where
  "nth_opt xs i = (if i < length xs then Some (xs ! i) else None)"

subsection \<open>The store of header objects\<close>

text \<open>
  Header mappings are objects: they are passed by reference, and \<^verbatim>\<open>assign\<close> and
  property assignment write into them. The store is the list of all objects ever
  created; an object's address is its position, and a new object is appended.
\<close>

type_synonym addr = nat
type_synonym object = "string \<rightharpoonup> string"
type_synonym heap = "object list"

definition alloc :: "heap \<Rightarrow> object \<Rightarrow> heap \<times> addr" where
  "alloc h ob = (h @ [ob], length h)"

text \<open>\<^verbatim>\<open>obj[k] = v\<close>\<close>

definition set_prop :: "heap \<Rightarrow> addr \<Rightarrow> string \<Rightarrow> string \<Rightarrow> heap" where
  "set_prop h a k v = h[a := (h ! a)(k \<mapsto> v)]"

text \<open>
  lodash \<^verbatim>\<open>clone\<close>: a new object with the same properties.
\<close>

definition clone :: "heap \<Rightarrow> addr \<Rightarrow> heap \<times> addr" where
  "clone h a = alloc h (h ! a)"

text \<open>
  lodash \<^verbatim>\<open>assign(target, source)\<close>: copies the properties of the source into the
  target object itself and returns the target; an \<^verbatim>\<open>undefined\<close> target is replaced
  by a new empty object. The source is given by its properties.
\<close>

definition assign :: "heap \<Rightarrow> addr option \<Rightarrow> object \<Rightarrow> heap \<times> addr" where
  "assign h target source =
     (let (h1, a) = (case target of None \<Rightarrow> alloc h Map.empty | Some a \<Rightarrow> (h, a))
      in (h1[a := (h1 ! a) ++ source], a))"

text \<open>A reference held in a property is either missing or points into the store.\<close>

definition valid_ref :: "heap \<Rightarrow> addr option \<Rightarrow> bool" where
  "valid_ref h r = (case r of None \<Rightarrow> True | Some a \<Rightarrow> a < length h)"

section \<open>Parameters, environment and results\<close>

text \<open>
  The properties of \<^verbatim>\<open>params\<close> that the code reads or writes. \<^verbatim>\<open>headers\<close> and
  \<^verbatim>\<open>defaultHeaders\<close> hold references to header objects. \<^verbatim>\<open>resolveLinks\<close> is
  \<open>None\<close> when the key is not in the object and \<open>Some v\<close> when it is, whatever its
  value. (\<^verbatim>\<open>retryOnError\<close> is destructured and never used.)
\<close>

record params =
  accessToken :: "string option"
  space :: "string option"
  insecure :: "bool option"
  host :: "string option"
  headers :: "addr option"
  resolveLinks :: "jsval option"
  application :: "string option"
  integration :: "string option"
  defaultHostname :: "string option"
  defaultHeaders :: "addr option"

text \<open>
  The global \<^verbatim>\<open>process\<close>: not declared at all (reading it raises), or declared with
  a falsy value or an object.
\<close>

record node_release =
  release_name :: "string option"

record node_process =
  release :: "node_release option"
  proc_version :: string

datatype global_process = Undeclared | Declared "node_process option"

text \<open>
  What the module imports and does not define: the SDK version string and the
  user-agent formatter of the SDK core, a function of the SDK identifier, the
  application and the integration.
\<close>

record env =
  process :: global_process
  version :: string
  getUserAgentHeader :: "string \<Rightarrow> string option \<Rightarrow> string option \<Rightarrow> string"

datatype error = TypeError string | ReferenceError string

text \<open>
  The object \<^verbatim>\<open>createNonAxiosHTTPClient\<close> returns: its \<^verbatim>\<open>get\<close> closes over the
  string \<^verbatim>\<open>baseURL\<close> and the reference \<^verbatim>\<open>defaultHeaders\<close>.
\<close>

record http_client =
  c_baseURL :: string
  c_defaultHeaders :: addr

text \<open>
  \<^verbatim>\<open>createContentfulApi\<close> and \<^verbatim>\<open>createLinkResolver\<close> are imported. The client is
  represented by what \<^verbatim>\<open>createClient\<close> hands to them: the HTTP client and the
  boolean given to \<^verbatim>\<open>createLinkResolver\<close>.
\<close>

record api =
  http :: http_client
  shouldLinksResolve :: bool

text \<open>The \<^verbatim>\<open>options\<close> argument of \<^verbatim>\<open>get\<close>, and the request it builds.\<close>

record options =
  opt_query :: "(string \<times> string) list option"
  opt_headers :: "addr option"

record request =
  req_url :: string
  req_query :: "(string \<times> string) list option"
  req_headers :: object

section \<open>The functions of lib/contentful.js\<close>

definition createURL :: "params \<Rightarrow> string" where
  "createURL p =
     (let parts = (if str_truthy (host p) then str_split CHR '':'' (toString (host p)) else []);
          hostname = or_else (nth_opt parts 0) (defaultHostname p);
          port = (if str_truthy (nth_opt parts 1) then toString (nth_opt parts 1)
                  else if bool_truthy (insecure p) then ''80'' else ''443'');
          baseURL = (if bool_truthy (insecure p) then ''http'' else ''https'') @ ''://'' @
                    toString hostname @ '':'' @ port @ ''/spaces/''
      in if str_truthy (space p) then baseURL @ toString (space p) @ ''/'' else baseURL)"

text \<open>\<^verbatim>\<open>process && process.release && process.release.name === 'node'\<close>\<close>

definition is_node :: "node_process option \<Rightarrow> bool" where
  "is_node pr =
     (case pr of
        None \<Rightarrow> False
      | Some pc \<Rightarrow> (case release pc of
                     None \<Rightarrow> False
                   | Some r \<Rightarrow> release_name r = Some ''node''))"

definition createDefaultHeaders :: "env \<Rightarrow> heap \<Rightarrow> params \<Rightarrow> heap \<times> (error + addr)" where
  "createDefaultHeaders env h p =
     (let (h1, a) = (case defaultHeaders p of Some a \<Rightarrow> (h, a) | None \<Rightarrow> alloc h Map.empty);
          h2 = set_prop h1 a ''Authorization'' (''Bearer '' @ toString (accessToken p))
      in case process env of
           Undeclared \<Rightarrow> (h2, Inl (ReferenceError ''process is not defined''))
         | Declared pr \<Rightarrow>
             if is_node pr then
               (let h3 = set_prop h2 a ''user-agent''
                           (''node.js/'' @ toString (map_option proc_version pr));
                    h4 = set_prop h3 a ''Accept-Encoding'' ''gzip''
                in (h4, Inr a))
             else (h2, Inr a))"

definition createNonAxiosHTTPClient :: "env \<Rightarrow> heap \<Rightarrow> params \<Rightarrow> heap \<times> (error + http_client)" where
  "createNonAxiosHTTPClient env h p =
     (let baseURL = createURL p
      in case createDefaultHeaders env h p of
           (h1, Inl e) \<Rightarrow> (h1, Inl e)
         | (h1, Inr a) \<Rightarrow> (h1, Inr \<lparr>c_baseURL = baseURL, c_defaultHeaders = a\<rparr>))"

text \<open>
  \<^verbatim>\<open>get(path, options)\<close>. The arguments of \<^verbatim>\<open>_.assign\<close> are evaluated in order: the
  clone is made first, then \<^verbatim>\<open>options.headers\<close> is read, which raises when
  \<^verbatim>\<open>options\<close> is \<^verbatim>\<open>undefined\<close>. The request takes the merged headers, the
  concatenated URL and the query.
\<close>

definition get :: "heap \<Rightarrow> http_client \<Rightarrow> string \<Rightarrow> options option \<Rightarrow> heap \<times> (error + request)" where
  "get h c path opts =
     (let (h1, cl) = clone h (c_defaultHeaders c)
      in case opts of
           None \<Rightarrow> (h1, Inl (TypeError ''Cannot read property headers of undefined''))
         | Some ops \<Rightarrow>
             (let source = (case opt_headers ops of Some b \<Rightarrow> h1 ! b | None \<Rightarrow> Map.empty);
                  (h2, merged) = assign h1 (Some cl) source
              in (h2, Inr \<lparr>req_url = c_baseURL c @ path,
                           req_query = opt_query ops,
                           req_headers = h2 ! merged\<rparr>)))"

text \<open>
  \<^verbatim>\<open>createClient(params)\<close>. The params object is the caller's: the function returns
  it as it has left it, together with the store.
\<close>

definition createClient :: "env \<Rightarrow> heap \<Rightarrow> params \<Rightarrow> heap \<times> params \<times> (error + api)" where
  "createClient env h p =
     (if \<not> str_truthy (accessToken p) then
        (h, p, Inl (TypeError ''Expected parameter accessToken''))
      else if \<not> str_truthy (space p) then
        (h, p, Inl (TypeError ''Expected parameter space''))
      else
        (let rl = (case resolveLinks p of Some v \<Rightarrow> truthy v | None \<Rightarrow> True);
             userAgentHeader = getUserAgentHeader env (''contentful.js/'' @ version env)
                                 (application p) (integration p);
             p1 = p\<lparr>defaultHostname := Some ''cdn.contentful.com''\<rparr>;
             (h1, ah) = assign h (headers p1)
                          [''Content-Type'' \<mapsto> ''application/vnd.contentful.delivery.v1+json'',
                           ''X-Contentful-User-Agent'' \<mapsto> userAgentHeader];
             p2 = p1\<lparr>headers := Some ah\<rparr>
         in case createNonAxiosHTTPClient env h1 p2 of
              (h2, Inl e) \<Rightarrow> (h2, p2, Inl e)
            | (h2, Inr cl) \<Rightarrow> (h2, p2, Inr \<lparr>http = cl, shouldLinksResolve = rl\<rparr>)))"

section \<open>The base URL as the specification words it\<close>

text \<open>
  The specification's description of the base URL, taken literally, for comparison
  with \<open>createURL\<close>: the scheme is \<^verbatim>\<open>http\<close> iff \<^verbatim>\<open>insecure\<close> is true; the hostname is
  the part of \<^verbatim>\<open>host\<close> before \<^verbatim>\<open>':'\<close> when \<^verbatim>\<open>host\<close> is given, else the default
  host; the port is the part of \<^verbatim>\<open>host\<close> after \<^verbatim>\<open>':'\<close> when present, else 80 when
  insecure, else 443.
\<close>

definition spec_baseURL :: "params \<Rightarrow> string" where
  "spec_baseURL p =
     (let scheme = (if insecure p = Some True then ''http'' else ''https'');
          default_port = (if insecure p = Some True then ''80'' else ''443'');
          hostname = (case host p of
                        Some hst \<Rightarrow> takeWhile (\<lambda>c. c \<noteq> CHR '':'') hst
                      | None \<Rightarrow> ''cdn.contentful.com'');
          port = (case host p of
                    Some hst \<Rightarrow> if CHR '':'' \<in> set hst
                                then tl (dropWhile (\<lambda>c. c \<noteq> CHR '':'') hst)
                                else default_port
                  | None \<Rightarrow> default_port)
      in scheme @ ''://'' @ hostname @ '':'' @ port @ ''/spaces/'' @ toString (space p) @ ''/'')"

section \<open>Concrete inputs\<close>

text \<open>The parameters \<^verbatim>\<open>{accessToken: "tok", space: "abc"}\<close>.\<close>

definition example_params :: params where
  "example_params =
     \<lparr>accessToken = Some ''tok'', space = Some ''abc'', insecure = None, host = None,
      headers = None, resolveLinks = None, application = None, integration = None,
      defaultHostname = None, defaultHeaders = None\<rparr>"

text \<open>A formatter standing for the imported one, and two runtimes.\<close>

definition example_formatter :: "string \<Rightarrow> string option \<Rightarrow> string option \<Rightarrow> string" where
  "example_formatter sdk app integ = ''sdk '' @ sdk @ '';''"

definition node_env :: env where
  "node_env =
     \<lparr>process = Declared (Some \<lparr>release = Some \<lparr>release_name = Some ''node''\<rparr>,
                                    proc_version = ''v6.9.1''\<rparr>),
      version = ''3.0.0'', getUserAgentHeader = example_formatter\<rparr>"

definition browser_env :: env where
  "browser_env =
     \<lparr>process = Declared (Some \<lparr>release = None, proc_version = []\<rparr>),
      version = ''3.0.0'', getUserAgentHeader = example_formatter\<rparr>"

text \<open>
  A runtime whose \<^verbatim>\<open>process.release.name\<close> is not \<^verbatim>\<open>node\<close>, and a browser page
  with no \<^verbatim>\<open>process\<close> binding at all.
\<close>

definition other_runtime_env :: env where
  "other_runtime_env =
     \<lparr>process = Declared (Some \<lparr>release = Some \<lparr>release_name = Some ''io.js''\<rparr>,
                                    proc_version = ''v3.3.1''\<rparr>),
      version = ''3.0.0'', getUserAgentHeader = example_formatter\<rparr>"

definition plain_browser_env :: env where
  "plain_browser_env =
     \<lparr>process = Undeclared, version = ''3.0.0'', getUserAgentHeader = example_formatter\<rparr>"

section \<open>Auxiliary facts\<close>

lemmas js_defs = str_truthy_def bool_truthy_def toString_def or_else_def nth_opt_def
lemmas heap_defs = alloc_def set_prop_def clone_def assign_def valid_ref_def
lemmas client_defs = createClient_def createNonAxiosHTTPClient_def createDefaultHeaders_def
lemmas example_defs = example_params_def node_env_def browser_env_def other_runtime_env_def
  plain_browser_env_def example_formatter_def

subsection \<open>Splitting at a separator\<close>

lemma str_split_unfold:
  "str_split c s = takeWhile (\<lambda>x. x \<noteq> c) s #
     (if c \<in> set s then str_split c (tl (dropWhile (\<lambda>x. x \<noteq> c) s)) else [])"
  by (induction s) (auto split: list.splits)

lemma str_split_nonempty: "str_split c s \<noteq> []"
  by (subst str_split_unfold) simp

lemma str_split_hd: "str_split c s ! 0 = takeWhile (\<lambda>x. x \<noteq> c) s"
  by (subst str_split_unfold) simp

lemma str_split_first: "nth_opt (str_split c s) 0 = Some (takeWhile (\<lambda>x. x \<noteq> c) s)"
  by (simp add: nth_opt_def str_split_nonempty str_split_hd)

lemma str_split_second:
  "nth_opt (str_split c s) (Suc 0) =
     (if c \<in> set s then Some (takeWhile (\<lambda>x. x \<noteq> c) (tl (dropWhile (\<lambda>x. x \<noteq> c) s))) else None)"
proof (cases "c \<in> set s")
  case True
  then have "str_split c s =
      takeWhile (\<lambda>x. x \<noteq> c) s # str_split c (tl (dropWhile (\<lambda>x. x \<noteq> c) s))"
    by (subst str_split_unfold) simp
  then show ?thesis
    using True by (simp add: nth_opt_def str_split_nonempty str_split_hd)
next
  case False
  then show ?thesis
    by (subst str_split_unfold) (simp add: nth_opt_def)
qed

subsection \<open>A closed form of the base URL\<close>

lemma dropWhile_absent: "c \<notin> set s \<Longrightarrow> dropWhile (\<lambda>x. x \<noteq> c) s = []"
  by (induction s) auto

lemma createURL_eq:
  "createURL p =
     (let hst = (case host p of Some s \<Rightarrow> s | None \<Rightarrow> []);
          first = takeWhile (\<lambda>c. c \<noteq> CHR '':'') hst;
          second = takeWhile (\<lambda>c. c \<noteq> CHR '':'') (tl (dropWhile (\<lambda>c. c \<noteq> CHR '':'') hst))
      in (if insecure p = Some True then ''http'' else ''https'') @ ''://'' @
         (if first \<noteq> [] then first else toString (defaultHostname p)) @ '':'' @
         (if second \<noteq> [] then second else if insecure p = Some True then ''80'' else ''443'') @
         ''/spaces/'' @ (if str_truthy (space p) then toString (space p) @ ''/'' else []))"
proof -
  have ins: "bool_truthy (insecure p) = (insecure p = Some True)"
    by (cases "insecure p") (simp_all add: bool_truthy_def)
  consider (absent) "host p = None" | (empty) "host p = Some []"
    | (plain) s where "host p = Some s" "s \<noteq> []" "CHR '':'' \<notin> set s"
    | (colon) s where "host p = Some s" "s \<noteq> []" "CHR '':'' \<in> set s"
    by (cases "host p") auto
  then show ?thesis
  proof cases
    case absent
    then show ?thesis
      unfolding createURL_def Let_def ins
      by (simp add: or_else_def str_truthy_def toString_def nth_opt_def)
  next
    case empty
    then show ?thesis
      unfolding createURL_def Let_def ins
      by (simp add: or_else_def str_truthy_def toString_def nth_opt_def)
  next
    case plain
    then show ?thesis
      unfolding createURL_def Let_def ins
      by (simp add: str_split_first str_split_second dropWhile_absent
            or_else_def str_truthy_def toString_def)
  next
    case colon
    then show ?thesis
      unfolding createURL_def Let_def ins
      by (simp add: str_split_first str_split_second or_else_def str_truthy_def toString_def)
  qed
qed

lemma createURL_headers_irrelevant: "createURL (p\<lparr>headers := x\<rparr>) = createURL p"
  by (simp add: createURL_def Let_def)

subsection \<open>The store operations\<close>

lemma assign_Some: "assign h (Some a) src = (h[a := h ! a ++ src], a)"
  by (simp add: assign_def)

lemma assign_None: "assign h None src = (h @ [src], length h)"
  by (simp add: assign_def alloc_def)

subsection \<open>What createClient returns\<close>

text \<open>
  The default header object after \<open>createDefaultHeaders\<close>, for a declared and for an
  undeclared \<^verbatim>\<open>process\<close>.
\<close>

lemma createDefaultHeaders_Declared:
  assumes "process env = Declared pr" "valid_ref h (defaultHeaders p)"
  shows "createDefaultHeaders env h p =
     (let auth = ''Bearer '' @ toString (accessToken p);
          ver = ''node.js/'' @ toString (map_option proc_version pr);
          fill = (\<lambda>m. if is_node pr
                       then m(''Authorization'' \<mapsto> auth, ''user-agent'' \<mapsto> ver, ''Accept-Encoding'' \<mapsto> ''gzip'')
                       else m(''Authorization'' \<mapsto> auth))
      in case defaultHeaders p of
           Some b \<Rightarrow> (h[b := fill (h ! b)], Inr b)
         | None \<Rightarrow> (h @ [fill Map.empty], Inr (length h)))"
  using assms
  by (cases "defaultHeaders p")
     (simp_all add: createDefaultHeaders_def heap_defs Let_def)


lemma createDefaultHeaders_returns:
  assumes "process env = Declared pr"
  shows "\<exists>h' a. createDefaultHeaders env h p = (h', Inr a)"
  using assms
  by (cases "defaultHeaders p") (simp_all add: createDefaultHeaders_def alloc_def Let_def)

text \<open>Past the two guards, \<open>createClient\<close> is the merge into \<^verbatim>\<open>params.headers\<close>
  followed by \<open>createDefaultHeaders\<close>.\<close>

lemma createClient_unfold:
  assumes "str_truthy (accessToken p)" "str_truthy (space p)"
  shows "createClient env h p =
     (let proto = [''Content-Type'' \<mapsto> ''application/vnd.contentful.delivery.v1+json'',
                   ''X-Contentful-User-Agent'' \<mapsto>
                     getUserAgentHeader env (''contentful.js/'' @ version env) (application p) (integration p)];
          h1 = (case headers p of Some x \<Rightarrow> h[x := h ! x ++ proto] | None \<Rightarrow> h @ [proto]);
          p2 = p\<lparr>defaultHostname := Some ''cdn.contentful.com'',
                 headers := Some (case headers p of Some x \<Rightarrow> x | None \<Rightarrow> length h)\<rparr>
      in case createDefaultHeaders env h1 p2 of
           (h2, Inl e) \<Rightarrow> (h2, p2, Inl e)
         | (h2, Inr a) \<Rightarrow>
             (h2, p2, Inr \<lparr>http = \<lparr>c_baseURL = createURL (p\<lparr>defaultHostname := Some ''cdn.contentful.com''\<rparr>),
                                   c_defaultHeaders = a\<rparr>,
                          shouldLinksResolve = (case resolveLinks p of Some v \<Rightarrow> truthy v | None \<Rightarrow> True)\<rparr>))"
    (is "_ = ?R")
proof -
  have url: "createURL (p\<lparr>defaultHostname := Some ''cdn.contentful.com'', headers := x\<rparr>)
      = createURL (p\<lparr>defaultHostname := Some ''cdn.contentful.com''\<rparr>)" for x
    by (simp add: createURL_def Let_def)
  show ?thesis
    using assms
    by (cases "headers p")
       (simp_all add: createClient_def createNonAxiosHTTPClient_def assign_Some assign_None
          Let_def url split: prod.splits sum.splits)
qed

lemma createClient_invalid:
  assumes "\<not> (str_truthy (accessToken p) \<and> str_truthy (space p))"
  shows "\<exists>e. createClient env h p = (h, p, Inl e)"
  using assms by (auto simp: createClient_def)

lemma createClient_Declared_result:
  assumes "str_truthy (accessToken p)" "str_truthy (space p)" "process env = Declared pr"
  shows "\<exists>h' p' d. createClient env h p =
     (h', p',
      Inr \<lparr>http = \<lparr>c_baseURL = createURL (p\<lparr>defaultHostname := Some ''cdn.contentful.com''\<rparr>),
                    c_defaultHeaders = d\<rparr>,
           shouldLinksResolve = (case resolveLinks p of Some v \<Rightarrow> truthy v | None \<Rightarrow> True)\<rparr>)"
proof -
  obtain h' a where "createDefaultHeaders env
      (case headers p of Some x \<Rightarrow> h[x := h ! x ++
         [''Content-Type'' \<mapsto> ''application/vnd.contentful.delivery.v1+json'',
          ''X-Contentful-User-Agent'' \<mapsto>
            getUserAgentHeader env (''contentful.js/'' @ version env) (application p) (integration p)]]
       | None \<Rightarrow> h @
         [[''Content-Type'' \<mapsto> ''application/vnd.contentful.delivery.v1+json'',
           ''X-Contentful-User-Agent'' \<mapsto>
             getUserAgentHeader env (''contentful.js/'' @ version env) (application p) (integration p)]])
      (p\<lparr>defaultHostname := Some ''cdn.contentful.com'',
         headers := Some (case headers p of Some x \<Rightarrow> x | None \<Rightarrow> length h)\<rparr>) = (h', Inr a)"
    using createDefaultHeaders_returns [OF assms(3)] by blast
  then show ?thesis
    unfolding createClient_unfold [OF assms(1,2)] Let_def by simp
qed

text \<open>
  \<open>createClient\<close> returns a client exactly when both required parameters are truthy
  and reading the global \<^verbatim>\<open>process\<close> does not raise.
\<close>

lemma createClient_Inr_iff:
  "(\<exists>h' p' a. createClient env h p = (h', p', Inr a)) \<longleftrightarrow>
     str_truthy (accessToken p) \<and> str_truthy (space p) \<and> process env \<noteq> Undeclared"
proof (cases "str_truthy (accessToken p) \<and> str_truthy (space p)")
  case False
  then show ?thesis
    using createClient_invalid [OF False, of env h] by auto
next
  case True
  then have t: "str_truthy (accessToken p)" "str_truthy (space p)" by simp_all
  show ?thesis
  proof (cases "process env")
    case Undeclared
    then show ?thesis
      unfolding createClient_unfold [OF t] Let_def
      by (simp add: createDefaultHeaders_def Let_def split: prod.splits)
  next
    case (Declared pr)
    then show ?thesis
      using createClient_Declared_result [OF t Declared, of h] t by auto
  qed
qed

text \<open>The store, the params and the client after a successful call, written out.\<close>

lemma createClient_Declared:
  assumes "str_truthy (accessToken p)" "str_truthy (space p)" "process env = Declared pr"
    and "valid_ref h (defaultHeaders p)"
  shows "createClient env h p =
     (let proto = [''Content-Type'' \<mapsto> ''application/vnd.contentful.delivery.v1+json'',
                   ''X-Contentful-User-Agent'' \<mapsto>
                     getUserAgentHeader env (''contentful.js/'' @ version env) (application p) (integration p)];
          h1 = (case headers p of Some x \<Rightarrow> h[x := h ! x ++ proto] | None \<Rightarrow> h @ [proto]);
          p2 = p\<lparr>defaultHostname := Some ''cdn.contentful.com'',
                 headers := Some (case headers p of Some x \<Rightarrow> x | None \<Rightarrow> length h)\<rparr>;
          auth = ''Bearer '' @ toString (accessToken p);
          ver = ''node.js/'' @ toString (map_option proc_version pr);
          fill = (\<lambda>m. if is_node pr
                       then m(''Authorization'' \<mapsto> auth, ''user-agent'' \<mapsto> ver, ''Accept-Encoding'' \<mapsto> ''gzip'')
                       else m(''Authorization'' \<mapsto> auth));
          h2 = (case defaultHeaders p of Some b \<Rightarrow> h1[b := fill (h1 ! b)] | None \<Rightarrow> h1 @ [fill Map.empty])
      in (h2, p2,
          Inr \<lparr>http = \<lparr>c_baseURL = createURL (p\<lparr>defaultHostname := Some ''cdn.contentful.com''\<rparr>),
                        c_defaultHeaders = (case defaultHeaders p of Some b \<Rightarrow> b | None \<Rightarrow> length h1)\<rparr>,
               shouldLinksResolve = (case resolveLinks p of Some v \<Rightarrow> truthy v | None \<Rightarrow> True)\<rparr>))"
proof -
  have v: "valid_ref h1 (defaultHeaders (p\<lparr>defaultHostname := d, headers := x\<rparr>))"
    if "length h \<le> length h1" for h1 d x
    using assms(4) that by (auto simp: valid_ref_def split: option.splits)
  show ?thesis
    unfolding createClient_unfold [OF assms(1,2)] Let_def
    by (cases "headers p"; cases "defaultHeaders p")
       (simp_all add: createDefaultHeaders_Declared [OF _ v] assms(3) Let_def)
qed


lemma createClient_Declared_heap:
  assumes "str_truthy (accessToken p)" "str_truthy (space p)" "process env = Declared pr"
    and "valid_ref h (defaultHeaders p)"
    and "proto = [''Content-Type'' \<mapsto> ''application/vnd.contentful.delivery.v1+json'',
                  ''X-Contentful-User-Agent'' \<mapsto>
                    getUserAgentHeader env (''contentful.js/'' @ version env) (application p) (integration p)]"
    and "fill = (\<lambda>m. if is_node pr
                   then m(''Authorization'' \<mapsto> ''Bearer '' @ toString (accessToken p),
                          ''user-agent'' \<mapsto> ''node.js/'' @ toString (map_option proc_version pr),
                          ''Accept-Encoding'' \<mapsto> ''gzip'')
                   else m(''Authorization'' \<mapsto> ''Bearer '' @ toString (accessToken p)))"
    and "h1 = (case headers p of Some x \<Rightarrow> h[x := h ! x ++ proto] | None \<Rightarrow> h @ [proto])"
  shows "createClient env h p =
     (case defaultHeaders p of Some b \<Rightarrow> h1[b := fill (h1 ! b)] | None \<Rightarrow> h1 @ [fill Map.empty],
      p\<lparr>defaultHostname := Some ''cdn.contentful.com'',
        headers := Some (case headers p of Some x \<Rightarrow> x | None \<Rightarrow> length h)\<rparr>,
      Inr \<lparr>http = \<lparr>c_baseURL = createURL (p\<lparr>defaultHostname := Some ''cdn.contentful.com''\<rparr>),
                    c_defaultHeaders = (case defaultHeaders p of Some b \<Rightarrow> b | None \<Rightarrow> length h1)\<rparr>,
           shouldLinksResolve = (case resolveLinks p of Some v \<Rightarrow> truthy v | None \<Rightarrow> True)\<rparr>)"
  unfolding createClient_Declared [OF assms(1-4)] assms(5,6,7) Let_def
  by simp

text \<open>The client's reference points into the store it is returned with.\<close>

lemma createClient_client_valid:
  assumes "str_truthy (accessToken p)" "str_truthy (space p)" "process env = Declared pr"
    and "valid_ref h (defaultHeaders p)"
  shows "\<exists>h' p' a. createClient env h p = (h', p', Inr a) \<and> c_defaultHeaders (http a) < length h'"
  using assms(4)
  unfolding createClient_Declared [OF assms]
  by (cases "headers p"; cases "defaultHeaders p") (simp_all add: Let_def valid_ref_def)

text \<open>
  Without a \<^verbatim>\<open>defaultHeaders\<close> property in the params, the client's default headers
  hold \<^verbatim>\<open>Authorization\<close> and neither of the two headers that \<open>createClient\<close> has
  merged into \<^verbatim>\<open>params.headers\<close>.
\<close>

lemma createClient_default_headers_content:
  assumes "str_truthy (accessToken p)" "str_truthy (space p)" "process env = Declared pr"
    and "defaultHeaders p = None"
  shows "\<exists>h' p' a. createClient env h p = (h', p', Inr a) \<and>
     (h' ! c_defaultHeaders (http a)) ''Authorization'' = Some (''Bearer '' @ toString (accessToken p)) \<and>
     (h' ! c_defaultHeaders (http a)) ''Content-Type'' = None \<and>
     (h' ! c_defaultHeaders (http a)) ''X-Contentful-User-Agent'' = None"
proof -
  have v: "valid_ref h (defaultHeaders p)"
    using assms(4) by (simp add: valid_ref_def)
  show ?thesis
    unfolding createClient_Declared [OF assms(1,2,3) v]
    by (cases "headers p") (simp_all add: assms(4) Let_def nth_append)
qed

subsection \<open>The headers of the Node.js runtime\<close>





subsection \<open>Runs on concrete inputs\<close>


lemma createClient_shared_example:
  "createClient browser_env [Map.empty] (example_params\<lparr>defaultHeaders := Some 0\<rparr>) =
     ([[''Authorization'' \<mapsto> ''Bearer tok''],
       [''Content-Type'' \<mapsto> ''application/vnd.contentful.delivery.v1+json'',
        ''X-Contentful-User-Agent'' \<mapsto> ''sdk contentful.js/3.0.0;'']],
      example_params\<lparr>defaultHeaders := Some 0, defaultHostname := Some ''cdn.contentful.com'',
                       headers := Some 1\<rparr>,
      Inr \<lparr>http = \<lparr>c_baseURL = ''https://cdn.contentful.com:443/spaces/abc/'', c_defaultHeaders = 0\<rparr>,
           shouldLinksResolve = True\<rparr>)"
  by (simp add: client_defs createURL_def heap_defs js_defs example_defs is_node_def)

lemma createClient_shared_example_again:
  "createClient browser_env
     [[''Authorization'' \<mapsto> ''Bearer tok''],
      [''Content-Type'' \<mapsto> ''application/vnd.contentful.delivery.v1+json'',
       ''X-Contentful-User-Agent'' \<mapsto> ''sdk contentful.js/3.0.0;'']]
     (example_params\<lparr>defaultHeaders := Some 0, defaultHostname := Some ''cdn.contentful.com'',
                      headers := Some 1\<rparr>) =
     ([[''Authorization'' \<mapsto> ''Bearer tok''],
       [''Content-Type'' \<mapsto> ''application/vnd.contentful.delivery.v1+json'',
        ''X-Contentful-User-Agent'' \<mapsto> ''sdk contentful.js/3.0.0;'']],
      example_params\<lparr>defaultHeaders := Some 0, defaultHostname := Some ''cdn.contentful.com'',
                       headers := Some 1\<rparr>,
      Inr \<lparr>http = \<lparr>c_baseURL = ''https://cdn.contentful.com:443/spaces/abc/'', c_defaultHeaders = 0\<rparr>,
           shouldLinksResolve = True\<rparr>)"
  by (simp add: client_defs createURL_def heap_defs js_defs example_defs is_node_def)


section \<open>The claims\<close>

subsection \<open>C1: the default headers\<close>

text \<open>
  Claim C1 says that for \<^verbatim>\<open>{accessToken: "tok", space: "abc"}\<close> the default headers
  that \<open>get\<close> attaches to every request contain \<^verbatim>\<open>Authorization: Bearer tok\<close>, the
  delivery \<^verbatim>\<open>Content-Type\<close> and the \<^verbatim>\<open>X-Contentful-User-Agent\<close> signature. The code
  run on this input: \<open>createClient\<close> writes the content type and the signature into
  \<^verbatim>\<open>params.headers\<close> (object 0), while \<open>createDefaultHeaders\<close> reads
  \<^verbatim>\<open>params.defaultHeaders\<close>, finds none and starts from a new object (object 1). The
  client's default headers, and the headers of a request made with no headers of its
  own, hold \<^verbatim>\<open>Authorization\<close> only.
\<close>

theorem createClient_omits_protocol_headers:
  "createClient browser_env [] example_params =
     ([[''Content-Type'' \<mapsto> ''application/vnd.contentful.delivery.v1+json'',
        ''X-Contentful-User-Agent'' \<mapsto> ''sdk contentful.js/3.0.0;''],
       [''Authorization'' \<mapsto> ''Bearer tok'']],
      example_params\<lparr>defaultHostname := Some ''cdn.contentful.com'', headers := Some 0\<rparr>,
      Inr \<lparr>http = \<lparr>c_baseURL = ''https://cdn.contentful.com:443/spaces/abc/'', c_defaultHeaders = 1\<rparr>,
           shouldLinksResolve = True\<rparr>) \<and>
   snd (get [[''Content-Type'' \<mapsto> ''application/vnd.contentful.delivery.v1+json'',
              ''X-Contentful-User-Agent'' \<mapsto> ''sdk contentful.js/3.0.0;''],
             [''Authorization'' \<mapsto> ''Bearer tok'']]
          \<lparr>c_baseURL = ''https://cdn.contentful.com:443/spaces/abc/'', c_defaultHeaders = 1\<rparr>
          ''entries'' (Some \<lparr>opt_query = None, opt_headers = None\<rparr>)) =
     Inr \<lparr>req_url = ''https://cdn.contentful.com:443/spaces/abc/entries'', req_query = None,
          req_headers = [''Authorization'' \<mapsto> ''Bearer tok'']\<rparr> \<and>
   [''Authorization'' \<mapsto> ''Bearer tok''] ''Content-Type'' = (None :: string option) \<and>
   [''Authorization'' \<mapsto> ''Bearer tok''] ''X-Contentful-User-Agent'' = (None :: string option)"
  by (simp add: client_defs createURL_def get_def heap_defs js_defs example_defs is_node_def)

subsection \<open>C2: the base URL\<close>

text \<open>
  Claim C2, as amended. For every params with non-empty space and accessToken (and a
  declared \<^verbatim>\<open>process\<close>), \<open>createClient\<close> returns a client whose base URL is
  \<^verbatim>\<open>{scheme}://{hostname}:{port}/spaces/{space}/\<close>, where the scheme is \<^verbatim>\<open>http\<close> iff
  \<^verbatim>\<open>insecure\<close> is true and \<^verbatim>\<open>https\<close> otherwise; the hostname is the part of \<^verbatim>\<open>host\<close>
  before its first \<^verbatim>\<open>':'\<close> when that part is non-empty, and \<^verbatim>\<open>cdn.contentful.com\<close>
  otherwise; the port is the part of \<^verbatim>\<open>host\<close> between its first \<^verbatim>\<open>':'\<close> and the next
  one (or the end) when that part is non-empty, and otherwise 80 when insecure, 443
  when not. The scheme is never read from \<^verbatim>\<open>host\<close>.

  The claim as written takes the hostname to be whatever precedes \<^verbatim>\<open>':'\<close> and the port
  to be whatever follows it. For \<^verbatim>\<open>host = ":9000"\<close> that is an empty hostname, where
  the code falls back to the default host (\<open>createURL_literal_counterexample\<close>).
\<close>

theorem createClient_baseURL:
  assumes "str_truthy (accessToken p)" "str_truthy (space p)" "process env = Declared pr"
  shows "\<exists>h' p' a. createClient env h p = (h', p', Inr a) \<and>
     c_baseURL (http a) =
       (let hst = (case host p of Some s \<Rightarrow> s | None \<Rightarrow> []);
            first = takeWhile (\<lambda>c. c \<noteq> CHR '':'') hst;
            second = takeWhile (\<lambda>c. c \<noteq> CHR '':'') (tl (dropWhile (\<lambda>c. c \<noteq> CHR '':'') hst))
        in (if insecure p = Some True then ''http'' else ''https'') @ ''://'' @
           (if first \<noteq> [] then first else ''cdn.contentful.com'') @ '':'' @
           (if second \<noteq> [] then second else if insecure p = Some True then ''80'' else ''443'') @
           ''/spaces/'' @ toString (space p) @ ''/'')"
    (is "\<exists>h' p' a. _ \<and> c_baseURL (http a) = ?R")
proof -
  let ?q = "p\<lparr>defaultHostname := Some ''cdn.contentful.com''\<rparr>"
  obtain h' p' a where run: "createClient env h p = (h', p', Inr a)"
    and url: "c_baseURL (http a) = createURL ?q"
    using createClient_Declared_result [OF assms, of h] by force
  have "createURL ?q = ?R"
    using assms(2) by (simp add: createURL_eq Let_def toString_def)
  with run url show ?thesis by simp
qed

text \<open>The two examples of the specification.\<close>

theorem createClient_baseURL_witness:
  "(\<exists>h' p' a. createClient browser_env [] (example_params\<lparr>insecure := Some False\<rparr>) = (h', p', Inr a) \<and>
      c_baseURL (http a) = ''https://cdn.contentful.com:443/spaces/abc/'') \<and>
   (\<exists>h' p' a. createClient browser_env []
        (example_params\<lparr>insecure := Some True, host := Some ''example.com:9000''\<rparr>) = (h', p', Inr a) \<and>
      c_baseURL (http a) = ''http://example.com:9000/spaces/abc/'')"
  using createClient_baseURL [of "example_params\<lparr>insecure := Some False\<rparr>" browser_env _ "[]"]
    createClient_baseURL [of "example_params\<lparr>insecure := Some True, host := Some ''example.com:9000''\<rparr>"
      browser_env _ "[]"]
  by (simp add: example_params_def browser_env_def str_truthy_def toString_def)

theorem createURL_literal_counterexample:
  "createURL (example_params\<lparr>host := Some '':9000'', defaultHostname := Some ''cdn.contentful.com''\<rparr>)
     = ''https://cdn.contentful.com:9000/spaces/abc/'' \<and>
   spec_baseURL (example_params\<lparr>host := Some '':9000'', defaultHostname := Some ''cdn.contentful.com''\<rparr>)
     = ''https://:9000/spaces/abc/''"
  by (simp add: createURL_def spec_baseURL_def example_params_def js_defs)

subsection \<open>C3: missing parameters\<close>

text \<open>
  Claim C3. For every params in which accessToken is absent or empty,
  \<open>createClient\<close> fails at once with the error naming \<^verbatim>\<open>accessToken\<close>; for every params
  with a non-empty accessToken and an absent or empty space, it fails at once with the
  error naming \<^verbatim>\<open>space\<close>. In both cases the result is the error and no client, and
  the store and the params are as they were: nothing has been created through which a
  request could be made.
\<close>

theorem createClient_missing_parameter:
  "(accessToken p = None \<or> accessToken p = Some [] \<longrightarrow>
      createClient env h p = (h, p, Inl (TypeError ''Expected parameter accessToken''))) \<and>
   (accessToken p \<noteq> None \<and> accessToken p \<noteq> Some [] \<and> (space p = None \<or> space p = Some []) \<longrightarrow>
      createClient env h p = (h, p, Inl (TypeError ''Expected parameter space'')))"
  by (auto simp: createClient_def str_truthy_def split: option.splits)

theorem createClient_missing_parameter_witness:
  "createClient node_env [] (example_params\<lparr>accessToken := None\<rparr>) =
     ([], example_params\<lparr>accessToken := None\<rparr>, Inl (TypeError ''Expected parameter accessToken'')) \<and>
   createClient node_env [] (example_params\<lparr>accessToken := Some []\<rparr>) =
     ([], example_params\<lparr>accessToken := Some []\<rparr>, Inl (TypeError ''Expected parameter accessToken'')) \<and>
   createClient node_env [] (example_params\<lparr>space := None\<rparr>) =
     ([], example_params\<lparr>space := None\<rparr>, Inl (TypeError ''Expected parameter space'')) \<and>
   createClient node_env [] (example_params\<lparr>space := Some []\<rparr>) =
     ([], example_params\<lparr>space := Some []\<rparr>, Inl (TypeError ''Expected parameter space''))"
  using createClient_missing_parameter [of "example_params\<lparr>accessToken := None\<rparr>" node_env "[]"]
    createClient_missing_parameter [of "example_params\<lparr>accessToken := Some []\<rparr>" node_env "[]"]
    createClient_missing_parameter [of "example_params\<lparr>space := None\<rparr>" node_env "[]"]
    createClient_missing_parameter [of "example_params\<lparr>space := Some []\<rparr>" node_env "[]"]
  by (simp add: example_params_def)

subsection \<open>C4: the resolveLinks flag\<close>

text \<open>
  Claim C4. The flag handed on by \<open>createClient\<close> is decided by the presence of the
  key \<^verbatim>\<open>resolveLinks\<close>, not by the truthiness of a default. When the key is absent
  the flag is true. When the key is present the flag is the boolean its value converts
  to: \<^verbatim>\<open>undefined\<close> and \<^verbatim>\<open>null\<close> give false, a boolean gives itself (an explicit
  \<^verbatim>\<open>false\<close> gives false, an explicit \<^verbatim>\<open>true\<close> gives true), a number gives true
  unless it is zero, a string gives true unless it is empty, and an object gives true.
\<close>

theorem createClient_resolveLinks:
  assumes "str_truthy (accessToken p)" "str_truthy (space p)" "process env = Declared pr"
  shows "\<exists>h' p' a. createClient env h p = (h', p', Inr a) \<and>
     shouldLinksResolve a =
       (case resolveLinks p of
          None \<Rightarrow> True
        | Some JUndefined \<Rightarrow> False
        | Some JNull \<Rightarrow> False
        | Some (JBool b) \<Rightarrow> b
        | Some (JNum n) \<Rightarrow> n \<noteq> 0
        | Some (JStr s) \<Rightarrow> s \<noteq> []
        | Some JObject \<Rightarrow> True)"
proof -
  obtain h' p' d where "createClient env h p =
     (h', p',
      Inr \<lparr>http = \<lparr>c_baseURL = createURL (p\<lparr>defaultHostname := Some ''cdn.contentful.com''\<rparr>),
                    c_defaultHeaders = d\<rparr>,
           shouldLinksResolve = (case resolveLinks p of Some v \<Rightarrow> truthy v | None \<Rightarrow> True)\<rparr>)"
    using createClient_Declared_result [OF assms] by blast
  moreover have "(case resolveLinks p of Some v \<Rightarrow> truthy v | None \<Rightarrow> True) =
       (case resolveLinks p of
          None \<Rightarrow> True
        | Some JUndefined \<Rightarrow> False
        | Some JNull \<Rightarrow> False
        | Some (JBool b) \<Rightarrow> b
        | Some (JNum n) \<Rightarrow> n \<noteq> 0
        | Some (JStr s) \<Rightarrow> s \<noteq> []
        | Some JObject \<Rightarrow> True)"
    by (simp split: option.split jsval.split)
  ultimately show ?thesis
    by simp
qed

theorem createClient_resolveLinks_witness:
  "(\<exists>h' p' a. createClient browser_env [] example_params = (h', p', Inr a) \<and> shouldLinksResolve a = True) \<and>
   (\<exists>h' p' a. createClient browser_env [] (example_params\<lparr>resolveLinks := Some (JBool True)\<rparr>)
       = (h', p', Inr a) \<and> shouldLinksResolve a = True) \<and>
   (\<exists>h' p' a. createClient browser_env [] (example_params\<lparr>resolveLinks := Some (JBool False)\<rparr>)
       = (h', p', Inr a) \<and> shouldLinksResolve a = False) \<and>
   (\<exists>h' p' a. createClient browser_env [] (example_params\<lparr>resolveLinks := Some JUndefined\<rparr>)
       = (h', p', Inr a) \<and> shouldLinksResolve a = False) \<and>
   (\<exists>h' p' a. createClient browser_env [] (example_params\<lparr>resolveLinks := Some (JStr ''yes'')\<rparr>)
       = (h', p', Inr a) \<and> shouldLinksResolve a = True) \<and>
   (\<exists>h' p' a. createClient browser_env [] (example_params\<lparr>resolveLinks := Some (JNum 0)\<rparr>)
       = (h', p', Inr a) \<and> shouldLinksResolve a = False)"
  using createClient_resolveLinks [of example_params browser_env _ "[]"]
    createClient_resolveLinks [of "example_params\<lparr>resolveLinks := Some (JBool True)\<rparr>" browser_env _ "[]"]
    createClient_resolveLinks [of "example_params\<lparr>resolveLinks := Some (JBool False)\<rparr>" browser_env _ "[]"]
    createClient_resolveLinks [of "example_params\<lparr>resolveLinks := Some JUndefined\<rparr>" browser_env _ "[]"]
    createClient_resolveLinks [of "example_params\<lparr>resolveLinks := Some (JStr ''yes'')\<rparr>" browser_env _ "[]"]
    createClient_resolveLinks [of "example_params\<lparr>resolveLinks := Some (JNum 0)\<rparr>" browser_env _ "[]"]
  by (simp add: example_params_def browser_env_def str_truthy_def)

subsection \<open>C5: per-call headers\<close>

text \<open>
  Claim C5. For every \<open>get\<close> call with an options object, on a client whose default
  header reference is valid: the headers sent are the per-call headers merged over a
  copy of the default headers, a per-call value winning where both have the key; every
  object that existed before the call, the client's default headers among them, is
  unchanged by it; and a later call without per-call headers sends exactly the default
  headers.
\<close>

theorem get_merges_over_copy:
  assumes "c_defaultHeaders c < length h" "valid_ref h (opt_headers ops)"
  shows "\<exists>h' req. get h c path (Some ops) = (h', Inr req) \<and>
     (let defaults = h ! c_defaultHeaders c;
          per_call = (case opt_headers ops of Some b \<Rightarrow> h ! b | None \<Rightarrow> Map.empty)
      in req_headers req = defaults ++ per_call \<and>
         (\<forall>k. req_headers req k = (case per_call k of Some v \<Rightarrow> Some v | None \<Rightarrow> defaults k)) \<and>
         req_url req = c_baseURL c @ path \<and>
         take (length h) h' = h \<and>
         h' ! c_defaultHeaders c = defaults \<and>
         (\<forall>path2 q. \<exists>h'' req2.
            get h' c path2 (Some \<lparr>opt_query = q, opt_headers = None\<rparr>) = (h'', Inr req2) \<and>
            req_headers req2 = defaults))"
  using assms
  by (auto simp: get_def heap_defs Let_def nth_append map_add_def split: option.splits)

theorem get_merges_over_copy_witness:
  "\<exists>h' req. get [[''Authorization'' \<mapsto> ''Bearer tok''], [''X-Foo'' \<mapsto> ''bar'']]
        \<lparr>c_baseURL = ''https://cdn.contentful.com:443/spaces/abc/'', c_defaultHeaders = 0\<rparr>
        ''entries'' (Some \<lparr>opt_query = None, opt_headers = Some 1\<rparr>) = (h', Inr req) \<and>
     req_headers req ''X-Foo'' = Some ''bar'' \<and>
     req_headers req ''Authorization'' = Some ''Bearer tok'' \<and>
     h' ! 0 = [''Authorization'' \<mapsto> ''Bearer tok''] \<and>
     (\<exists>h'' req2. get h' \<lparr>c_baseURL = ''https://cdn.contentful.com:443/spaces/abc/'', c_defaultHeaders = 0\<rparr>
        ''assets'' (Some \<lparr>opt_query = None, opt_headers = None\<rparr>) = (h'', Inr req2) \<and>
        req_headers req2 = [''Authorization'' \<mapsto> ''Bearer tok''])"
  using get_merges_over_copy
    [of "\<lparr>c_baseURL = ''https://cdn.contentful.com:443/spaces/abc/'', c_defaultHeaders = 0\<rparr>"
        "[[''Authorization'' \<mapsto> ''Bearer tok''], [''X-Foo'' \<mapsto> ''bar'']]"
        "\<lparr>opt_query = None, opt_headers = Some 1\<rparr>" "''entries''"]
  by (auto simp: valid_ref_def Let_def)

subsection \<open>C6: what normalization writes\<close>




subsection \<open>C7: the headers set on Node.js only\<close>



subsection \<open>C8: two clients from the same parameters\<close>

text \<open>
  Claim C8, as amended. Calling \<open>createClient\<close> twice with the same valid parameters
  (the same params object again, or the parameters as first given) yields two clients
  with the same base URL, the same link-resolution flag and default headers of the same
  contents, and the second call leaves the first client's default headers as they were.
  When the params carry no \<^verbatim>\<open>defaultHeaders\<close> object, the two clients' default header
  objects are distinct, and writing to one is not seen through the other. When the
  params carry a \<^verbatim>\<open>defaultHeaders\<close> object, both clients use that one object.

  The claim as written, that the two clients never share mutable state, fails for
  params with a \<^verbatim>\<open>defaultHeaders\<close> object
  (\<open>createClient_shared_default_headers_counterexample\<close>).
\<close>

theorem createClient_twice:
  assumes "str_truthy (accessToken p)" "str_truthy (space p)" "process env = Declared pr"
    and "valid_ref h (headers p)" "valid_ref h (defaultHeaders p)"
  shows "\<exists>h1 p1 a1. createClient env h p = (h1, p1, Inr a1) \<and>
     (\<forall>q. q = p \<or> q = p1 \<longrightarrow>
        (\<exists>h2 q' a2. createClient env h1 q = (h2, q', Inr a2) \<and>
           c_baseURL (http a2) = c_baseURL (http a1) \<and>
           shouldLinksResolve a2 = shouldLinksResolve a1 \<and>
           h2 ! c_defaultHeaders (http a2) = h2 ! c_defaultHeaders (http a1) \<and>
           h2 ! c_defaultHeaders (http a1) = h1 ! c_defaultHeaders (http a1) \<and>
           (case defaultHeaders p of
              None \<Rightarrow>
                c_defaultHeaders (http a1) \<noteq> c_defaultHeaders (http a2) \<and>
                (\<forall>m. (h2[c_defaultHeaders (http a1) := m]) ! c_defaultHeaders (http a2)
                       = h2 ! c_defaultHeaders (http a2)) \<and>
                (\<forall>m. (h2[c_defaultHeaders (http a2) := m]) ! c_defaultHeaders (http a1)
                       = h2 ! c_defaultHeaders (http a1))
            | Some b \<Rightarrow> c_defaultHeaders (http a1) = b \<and> c_defaultHeaders (http a2) = b)))"
proof -
  define proto where "proto =
    [''Content-Type'' \<mapsto> ''application/vnd.contentful.delivery.v1+json'',
     ''X-Contentful-User-Agent'' \<mapsto>
       getUserAgentHeader env (''contentful.js/'' @ version env) (application p) (integration p)]"
  define fill :: "object \<Rightarrow> object" where "fill =
    (\<lambda>m. if is_node pr
          then m(''Authorization'' \<mapsto> ''Bearer '' @ toString (accessToken p),
                 ''user-agent'' \<mapsto> ''node.js/'' @ toString (map_option proc_version pr),
                 ''Accept-Encoding'' \<mapsto> ''gzip'')
          else m(''Authorization'' \<mapsto> ''Bearer '' @ toString (accessToken p)))"
  define g where "g = (\<lambda>(k::heap) r. case r of Some x \<Rightarrow> k[x := k ! x ++ proto] | None \<Rightarrow> k @ [proto])"
  define f where "f = (\<lambda>(k::heap). case defaultHeaders p of
                         Some b \<Rightarrow> k[b := fill (k ! b)] | None \<Rightarrow> k @ [fill Map.empty])"
  define ah where "ah = (case headers p of Some x \<Rightarrow> x | None \<Rightarrow> length h)"
  define P where "P = p\<lparr>defaultHostname := Some ''cdn.contentful.com'', headers := Some ah\<rparr>"
  define H where "H = f (g h (headers p))"
  have proto_twice: "(m ++ proto) ++ proto = m ++ proto" for m
    by (simp add: fun_eq_iff map_add_def split: option.splits)
  have fill_idem: "fill (fill m) = fill m" for m
    by (simp add: fill_def)
  have fill_proto: "fill m ++ proto = fill (m ++ proto)" for m
    by (auto simp: fill_def proto_def fun_eq_iff map_add_def)
  have url: "createURL (p\<lparr>headers := x, defaultHostname := d\<rparr>) = createURL (p\<lparr>defaultHostname := d\<rparr>)"
    for d x
    by (simp add: createURL_def Let_def)
  have run_p: "createClient env k p =
      (f (g k (headers p)),
       p\<lparr>defaultHostname := Some ''cdn.contentful.com'',
         headers := Some (case headers p of Some x \<Rightarrow> x | None \<Rightarrow> length k)\<rparr>,
       Inr \<lparr>http = \<lparr>c_baseURL = createURL (p\<lparr>defaultHostname := Some ''cdn.contentful.com''\<rparr>),
                    c_defaultHeaders = (case defaultHeaders p of Some b \<Rightarrow> b
                                        | None \<Rightarrow> length (g k (headers p)))\<rparr>,
            shouldLinksResolve = (case resolveLinks p of Some v \<Rightarrow> truthy v | None \<Rightarrow> True)\<rparr>)"
    if "valid_ref k (defaultHeaders p)" for k
    unfolding f_def g_def
    by (rule createClient_Declared_heap [OF assms(1,2,3) that proto_def fill_def refl])
  have run_P: "createClient env k P =
      (f (g k (Some ah)), P,
       Inr \<lparr>http = \<lparr>c_baseURL = createURL (p\<lparr>defaultHostname := Some ''cdn.contentful.com''\<rparr>),
                    c_defaultHeaders = (case defaultHeaders p of Some b \<Rightarrow> b
                                        | None \<Rightarrow> length (g k (Some ah)))\<rparr>,
            shouldLinksResolve = (case resolveLinks p of Some v \<Rightarrow> truthy v | None \<Rightarrow> True)\<rparr>)"
    if "valid_ref k (defaultHeaders p)" for k
  proof -
    have t: "str_truthy (accessToken P)" "str_truthy (space P)" "valid_ref k (defaultHeaders P)"
      using assms(1,2) that by (simp_all add: P_def)
    have pr1: "proto =
        [''Content-Type'' \<mapsto> ''application/vnd.contentful.delivery.v1+json'',
         ''X-Contentful-User-Agent'' \<mapsto>
           getUserAgentHeader env (''contentful.js/'' @ version env) (application P) (integration P)]"
      by (simp add: proto_def P_def)
    have aP: "accessToken P = accessToken p"
      by (simp add: P_def)
    have fl1: "fill =
        (\<lambda>m. if is_node pr
              then m(''Authorization'' \<mapsto> ''Bearer '' @ toString (accessToken P),
                     ''user-agent'' \<mapsto> ''node.js/'' @ toString (map_option proc_version pr),
                     ''Accept-Encoding'' \<mapsto> ''gzip'')
              else m(''Authorization'' \<mapsto> ''Bearer '' @ toString (accessToken P)))"
      unfolding fill_def aP ..
    have hp: "g k (Some ah) =
        (case headers P of Some x \<Rightarrow> k[x := k ! x ++ proto] | None \<Rightarrow> k @ [proto])"
      by (simp add: g_def P_def)
    have dP: "defaultHeaders P = defaultHeaders p" and rP: "resolveLinks P = resolveLinks p"
      and PP: "P\<lparr>defaultHostname := Some ''cdn.contentful.com'',
                  headers := Some (case headers P of Some x \<Rightarrow> x | None \<Rightarrow> length k)\<rparr> = P"
      and uP: "createURL (P\<lparr>defaultHostname := Some ''cdn.contentful.com''\<rparr>)
                 = createURL (p\<lparr>defaultHostname := Some ''cdn.contentful.com''\<rparr>)"
      by (simp_all add: P_def url)
    from createClient_Declared_heap [OF t(1,2) assms(3) t(3) pr1 fl1 hp]
    show ?thesis
      unfolding f_def dP rP PP uP .
  qed
  have first: "createClient env h p =
      (H, P,
       Inr \<lparr>http = \<lparr>c_baseURL = createURL (p\<lparr>defaultHostname := Some ''cdn.contentful.com''\<rparr>),
                    c_defaultHeaders = (case defaultHeaders p of Some b \<Rightarrow> b
                                        | None \<Rightarrow> length (g h (headers p)))\<rparr>,
            shouldLinksResolve = (case resolveLinks p of Some v \<Rightarrow> truthy v | None \<Rightarrow> True)\<rparr>)"
    using run_p [OF assms(5)] by (simp add: H_def P_def ah_def)
  have vH: "valid_ref H (defaultHeaders p)"
    using assms(5) by (auto simp: valid_ref_def H_def f_def g_def split: option.splits)
  have ah: "ah < length (g h (headers p))"
    using assms(4) by (auto simp: valid_ref_def ah_def g_def split: option.splits)
  have props: "f (g H r) ! (case defaultHeaders p of Some b \<Rightarrow> b | None \<Rightarrow> length (g H r)) =
        f (g H r) ! (case defaultHeaders p of Some b \<Rightarrow> b | None \<Rightarrow> length (g h (headers p))) \<and>
      f (g H r) ! (case defaultHeaders p of Some b \<Rightarrow> b | None \<Rightarrow> length (g h (headers p))) =
        H ! (case defaultHeaders p of Some b \<Rightarrow> b | None \<Rightarrow> length (g h (headers p))) \<and>
      (defaultHeaders p = None \<longrightarrow>
         length (g h (headers p)) \<noteq> length (g H r) \<and>
         length (g h (headers p)) < length (f (g H r)) \<and> length (g H r) < length (f (g H r)))"
    if "r = headers p \<or> r = Some ah" for r
  proof (cases "headers p")
    case None
    then have r: "r = None \<or> r = Some (length h)"
      using that by (auto simp: ah_def)
    show ?thesis
    proof (cases "defaultHeaders p")
      case dn: None
      from r show ?thesis
        by (elim disjE) (simp_all add: None dn H_def f_def g_def nth_append proto_twice)
    next
      case (Some b)
      then have b: "b < length h"
        using assms(5) by (simp add: valid_ref_def)
      from r b show ?thesis
        by (elim disjE)
           (simp_all add: None Some H_def f_def g_def nth_append nth_list_update
              proto_twice fill_idem)
    qed
  next
    case (Some x)
    then have r: "r = Some x" and x: "x < length h"
      using that assms(4) by (auto simp: ah_def valid_ref_def)
    show ?thesis
    proof (cases "defaultHeaders p")
      case None
      from x show ?thesis
        by (simp add: r Some None H_def f_def g_def nth_append nth_list_update proto_twice)
    next
      case db: (Some b)
      then have b: "b < length h"
        using assms(5) by (simp add: valid_ref_def)
      from x b show ?thesis
        by (simp add: r Some db H_def f_def g_def nth_list_update
              proto_twice fill_idem fill_proto)
    qed
  qed
  define D1 where "D1 = (case defaultHeaders p of Some b \<Rightarrow> b | None \<Rightarrow> length (g h (headers p)))"
  define A1 where "A1 =
    \<lparr>http = \<lparr>c_baseURL = createURL (p\<lparr>defaultHostname := Some ''cdn.contentful.com''\<rparr>),
             c_defaultHeaders = D1\<rparr>,
     shouldLinksResolve = (case resolveLinks p of Some v \<Rightarrow> truthy v | None \<Rightarrow> True)\<rparr>"
  have first': "createClient env h p = (H, P, Inr A1)"
    using first by (simp add: A1_def D1_def)
  have second: "\<exists>r q' a2. createClient env H q = (f (g H r), q', Inr a2) \<and>
      (r = headers p \<or> r = Some ah) \<and>
      c_baseURL (http a2) = c_baseURL (http A1) \<and>
      shouldLinksResolve a2 = shouldLinksResolve A1 \<and>
      c_defaultHeaders (http a2) =
        (case defaultHeaders p of Some b \<Rightarrow> b | None \<Rightarrow> length (g H r))"
    if "q = p \<or> q = P" for q
    using that
  proof
    assume "q = p"
    show ?thesis
      unfolding \<open>q = p\<close> run_p [OF vH] by (intro exI [of _ "headers p"]) (simp add: A1_def)
  next
    assume "q = P"
    show ?thesis
      unfolding \<open>q = P\<close> run_P [OF vH] by (intro exI [of _ "Some ah"]) (simp add: A1_def)
  qed
  have "\<exists>h2 q' a2. createClient env H q = (h2, q', Inr a2) \<and>
           c_baseURL (http a2) = c_baseURL (http A1) \<and>
           shouldLinksResolve a2 = shouldLinksResolve A1 \<and>
           h2 ! c_defaultHeaders (http a2) = h2 ! c_defaultHeaders (http A1) \<and>
           h2 ! c_defaultHeaders (http A1) = H ! c_defaultHeaders (http A1) \<and>
           (case defaultHeaders p of
              None \<Rightarrow>
                c_defaultHeaders (http A1) \<noteq> c_defaultHeaders (http a2) \<and>
                (\<forall>m. (h2[c_defaultHeaders (http A1) := m]) ! c_defaultHeaders (http a2)
                       = h2 ! c_defaultHeaders (http a2)) \<and>
                (\<forall>m. (h2[c_defaultHeaders (http a2) := m]) ! c_defaultHeaders (http A1)
                       = h2 ! c_defaultHeaders (http A1))
            | Some b \<Rightarrow> c_defaultHeaders (http A1) = b \<and> c_defaultHeaders (http a2) = b)"
    if q: "q = p \<or> q = P" for q
  proof -
    from second [OF q] obtain r q' a2 where s: "createClient env H q = (f (g H r), q', Inr a2)"
      "r = headers p \<or> r = Some ah"
      "c_baseURL (http a2) = c_baseURL (http A1)"
      "shouldLinksResolve a2 = shouldLinksResolve A1"
      "c_defaultHeaders (http a2) =
        (case defaultHeaders p of Some b \<Rightarrow> b | None \<Rightarrow> length (g H r))"
      by blast
    have d1: "c_defaultHeaders (http A1) = D1"
      by (simp add: A1_def)
    show ?thesis
      using props [OF s(2)] s(3,4)
      unfolding d1 D1_def
      by (intro exI [of _ "f (g H r)"] exI [of _ q'] exI [of _ a2])
         (cases "defaultHeaders p"; simp add: s(1,5))
  qed
  with first' show ?thesis
    by blast
qed

theorem createClient_twice_witness:
  "\<exists>h1 p1 a1. createClient browser_env [] example_params = (h1, p1, Inr a1) \<and>
     (\<exists>h2 p2 a2. createClient browser_env h1 p1 = (h2, p2, Inr a2) \<and>
        c_baseURL (http a2) = c_baseURL (http a1) \<and>
        h2 ! c_defaultHeaders (http a2) = h2 ! c_defaultHeaders (http a1) \<and>
        c_defaultHeaders (http a1) \<noteq> c_defaultHeaders (http a2))"
proof -
  have pre: "str_truthy (accessToken example_params)" "str_truthy (space example_params)"
    "process browser_env = Declared (Some \<lparr>release = None, proc_version = []\<rparr>)"
    "valid_ref [] (headers example_params)" "valid_ref [] (defaultHeaders example_params)"
    and d: "defaultHeaders example_params = None"
    by (simp_all add: example_params_def browser_env_def str_truthy_def valid_ref_def)
  from createClient_twice [OF pre]
  obtain h1 p1 a1 where first: "createClient browser_env [] example_params = (h1, p1, Inr a1)"
    and again: "\<And>q. q = example_params \<or> q = p1 \<Longrightarrow>
      \<exists>h2 q' a2. createClient browser_env h1 q = (h2, q', Inr a2) \<and>
        c_baseURL (http a2) = c_baseURL (http a1) \<and>
        shouldLinksResolve a2 = shouldLinksResolve a1 \<and>
        h2 ! c_defaultHeaders (http a2) = h2 ! c_defaultHeaders (http a1) \<and>
        h2 ! c_defaultHeaders (http a1) = h1 ! c_defaultHeaders (http a1) \<and>
        c_defaultHeaders (http a1) \<noteq> c_defaultHeaders (http a2) \<and>
        (\<forall>m. (h2[c_defaultHeaders (http a1) := m]) ! c_defaultHeaders (http a2)
               = h2 ! c_defaultHeaders (http a2)) \<and>
        (\<forall>m. (h2[c_defaultHeaders (http a2) := m]) ! c_defaultHeaders (http a1)
               = h2 ! c_defaultHeaders (http a1))"
    unfolding d option.case by blast
  from again [of p1] obtain h2 q' a2 where
    "createClient browser_env h1 p1 = (h2, q', Inr a2)"
    "c_baseURL (http a2) = c_baseURL (http a1)"
    "h2 ! c_defaultHeaders (http a2) = h2 ! c_defaultHeaders (http a1)"
    "c_defaultHeaders (http a1) \<noteq> c_defaultHeaders (http a2)"
    by blast
  with first show ?thesis
    by blast
qed

text \<open>
  With \<^verbatim>\<open>{accessToken: "tok", space: "abc", defaultHeaders: {}}\<close>, both calls return a
  client whose default headers are object 0, the caller's object.
\<close>

theorem createClient_shared_default_headers_counterexample:
  "createClient browser_env [Map.empty] (example_params\<lparr>defaultHeaders := Some 0\<rparr>) =
     ([[''Authorization'' \<mapsto> ''Bearer tok''],
       [''Content-Type'' \<mapsto> ''application/vnd.contentful.delivery.v1+json'',
        ''X-Contentful-User-Agent'' \<mapsto> ''sdk contentful.js/3.0.0;'']],
      example_params\<lparr>defaultHeaders := Some 0, defaultHostname := Some ''cdn.contentful.com'',
                       headers := Some 1\<rparr>,
      Inr \<lparr>http = \<lparr>c_baseURL = ''https://cdn.contentful.com:443/spaces/abc/'', c_defaultHeaders = 0\<rparr>,
           shouldLinksResolve = True\<rparr>) \<and>
   createClient browser_env
     [[''Authorization'' \<mapsto> ''Bearer tok''],
      [''Content-Type'' \<mapsto> ''application/vnd.contentful.delivery.v1+json'',
       ''X-Contentful-User-Agent'' \<mapsto> ''sdk contentful.js/3.0.0;'']]
     (example_params\<lparr>defaultHeaders := Some 0, defaultHostname := Some ''cdn.contentful.com'',
                      headers := Some 1\<rparr>) =
     ([[''Authorization'' \<mapsto> ''Bearer tok''],
       [''Content-Type'' \<mapsto> ''application/vnd.contentful.delivery.v1+json'',
        ''X-Contentful-User-Agent'' \<mapsto> ''sdk contentful.js/3.0.0;'']],
      example_params\<lparr>defaultHeaders := Some 0, defaultHostname := Some ''cdn.contentful.com'',
                       headers := Some 1\<rparr>,
      Inr \<lparr>http = \<lparr>c_baseURL = ''https://cdn.contentful.com:443/spaces/abc/'', c_defaultHeaders = 0\<rparr>,
           shouldLinksResolve = True\<rparr>)"
  using createClient_shared_example createClient_shared_example_again by (rule conjI)

subsection \<open>C9: who can reach the default headers\<close>

text \<open>
  Claim C9, as amended. For every configuration accepted by \<open>createClient\<close> that
  carries no \<^verbatim>\<open>defaultHeaders\<close> object, the client's default header mapping is an
  object created by the call: it is none of the objects that existed before, the
  returned params do not refer to it, and no write through a reference the caller holds
  (to an earlier object, or to \<^verbatim>\<open>params.headers\<close>) changes it or the headers the
  client sends.

  The claim as written, for every accepted configuration, fails when the params carry a
  \<^verbatim>\<open>defaultHeaders\<close> object: the client then uses the caller's object, and a later
  write by the caller shows in the client's requests
  (\<open>createClient_caller_keeps_reference_counterexample\<close>).
\<close>

theorem createClient_fresh_default_headers:
  assumes "str_truthy (accessToken p)" "str_truthy (space p)" "process env = Declared pr"
    and "valid_ref h (headers p)" "defaultHeaders p = None"
  shows "\<exists>h' p' a. createClient env h p = (h', p', Inr a) \<and>
     (let d = c_defaultHeaders (http a)
      in length h \<le> d \<and> d < length h' \<and> headers p' \<noteq> Some d \<and> defaultHeaders p' = None \<and>
         (\<forall>i m. i < length h \<or> headers p' = Some i \<longrightarrow> (h'[i := m]) ! d = h' ! d) \<and>
         (\<forall>i m path q. i < length h \<or> headers p' = Some i \<longrightarrow>
            snd (get (h'[i := m]) (http a) path (Some \<lparr>opt_query = q, opt_headers = None\<rparr>)) =
            snd (get h' (http a) path (Some \<lparr>opt_query = q, opt_headers = None\<rparr>))))"
proof -
  have v: "valid_ref h (defaultHeaders p)"
    using assms(5) by (simp add: valid_ref_def)
  show ?thesis
    using assms(4,5)
    unfolding createClient_Declared [OF assms(1,2,3) v]
    by (cases "headers p")
       (auto simp: Let_def valid_ref_def get_def clone_def alloc_def assign_Some
          nth_append nth_list_update)
qed

theorem createClient_fresh_default_headers_witness:
  "\<exists>h' p' a. createClient browser_env [[''X-Foo'' \<mapsto> ''bar'']] (example_params\<lparr>headers := Some 0\<rparr>)
       = (h', p', Inr a) \<and>
     1 \<le> c_defaultHeaders (http a) \<and> c_defaultHeaders (http a) < length h' \<and>
     headers p' \<noteq> Some (c_defaultHeaders (http a)) \<and> defaultHeaders p' = None"
  using createClient_fresh_default_headers
    [of "example_params\<lparr>headers := Some 0\<rparr>" browser_env _ "[[''X-Foo'' \<mapsto> ''bar'']]"]
  by (auto simp: example_params_def browser_env_def str_truthy_def valid_ref_def Let_def)

theorem createClient_caller_keeps_reference_counterexample:
  "createClient browser_env [Map.empty] (example_params\<lparr>defaultHeaders := Some 0\<rparr>) =
     ([[''Authorization'' \<mapsto> ''Bearer tok''],
       [''Content-Type'' \<mapsto> ''application/vnd.contentful.delivery.v1+json'',
        ''X-Contentful-User-Agent'' \<mapsto> ''sdk contentful.js/3.0.0;'']],
      example_params\<lparr>defaultHeaders := Some 0, defaultHostname := Some ''cdn.contentful.com'',
                       headers := Some 1\<rparr>,
      Inr \<lparr>http = \<lparr>c_baseURL = ''https://cdn.contentful.com:443/spaces/abc/'', c_defaultHeaders = 0\<rparr>,
           shouldLinksResolve = True\<rparr>) \<and>
   snd (get (set_prop
              [[''Authorization'' \<mapsto> ''Bearer tok''],
               [''Content-Type'' \<mapsto> ''application/vnd.contentful.delivery.v1+json'',
                ''X-Contentful-User-Agent'' \<mapsto> ''sdk contentful.js/3.0.0;'']]
              0 ''X-Injected'' ''yes'')
          \<lparr>c_baseURL = ''https://cdn.contentful.com:443/spaces/abc/'', c_defaultHeaders = 0\<rparr>
          ''entries'' (Some \<lparr>opt_query = None, opt_headers = None\<rparr>)) =
     Inr \<lparr>req_url = ''https://cdn.contentful.com:443/spaces/abc/entries'', req_query = None,
          req_headers = [''Authorization'' \<mapsto> ''Bearer tok'', ''X-Injected'' \<mapsto> ''yes'']\<rparr>"
  by (simp add: createClient_shared_example) (simp add: get_def heap_defs)

subsection \<open>C10: get needs its options argument\<close>

text \<open>
  Claim C10. For every client, \<open>get\<close> called without the options argument raises a
  \<^verbatim>\<open>TypeError\<close> from reading a property of \<^verbatim>\<open>undefined\<close>; it returns no request.
\<close>

theorem get_without_options_raises:
  "get h c path None =
     (h @ [h ! c_defaultHeaders c], Inl (TypeError ''Cannot read property headers of undefined''))"
  by (simp add: get_def clone_def alloc_def)

theorem get_without_options_raises_witness:
  "snd (get [[''Authorization'' \<mapsto> ''Bearer tok'']]
          \<lparr>c_baseURL = ''https://cdn.contentful.com:443/spaces/abc/'', c_defaultHeaders = 0\<rparr>
          ''entries'' None)
     = Inl (TypeError ''Cannot read property headers of undefined'')"
  using get_without_options_raises
    [of "[[''Authorization'' \<mapsto> ''Bearer tok'']]"
        "\<lparr>c_baseURL = ''https://cdn.contentful.com:443/spaces/abc/'', c_defaultHeaders = 0\<rparr>"
        "''entries''"]
  by simp

end
